theory Spec2Isabelle
  imports Main
begin

section \<open>The picture plugin of djangocms-picture\<close>

text \<open>
  A shallow embedding of \<^verbatim>\<open>djangocms_picture/models.py\<close>: the module constant
  \<^verbatim>\<open>PICTURE_ALIGNMENT\<close>, the model class \<^verbatim>\<open>Picture\<close> and its methods
  \<^verbatim>\<open>get_size\<close>, \<^verbatim>\<open>get_link\<close> and \<^verbatim>\<open>clean\<close>.
\<close>

subsection \<open>Translatable text\<close>

text \<open>
  The module marks a string for translation with \<^verbatim>\<open>ugettext\<close> (translated at the call) or
  with \<^verbatim>\<open>_\<close>, which is \<^verbatim>\<open>ugettext_lazy\<close> (translated when rendered); one message is a plain
  string literal. The translation catalogue is the host's, so a text value is kept as the
  message id together with the way the source wraps it.
\<close>

datatype text_value =
    literal string
  | ugettext string
  | ugettext_lazy string

subsection \<open>Module constants\<close>

text \<open>
  \<^verbatim>\<open>PICTURE_ALIGNMENT = getattr(settings, 'DJANGOCMS_PICTURE_ALIGN', (...))\<close>:
  the host setting when it is there, the tuple written in the module otherwise. The settings
  object is the map from a setting's name to its value; a choice is a pair of the stored value
  and its label, and the tuple of choices is a list, in the order of the source.
\<close>

type_synonym choices = "(string \<times> text_value) list"

definition PICTURE_ALIGNMENT_default :: choices where
  "PICTURE_ALIGNMENT_default =
     [ (''left'', ugettext_lazy ''Align left''),
       (''right'', ugettext_lazy ''Align right''),
       (''left'', ugettext_lazy ''Align center'') ]"

definition PICTURE_ALIGNMENT :: "(string \<rightharpoonup> choices) \<Rightarrow> choices" where
  "PICTURE_ALIGNMENT settings =
     (case settings ''DJANGOCMS_PICTURE_ALIGN'' of
        Some v \<Rightarrow> v
      | None \<Rightarrow> PICTURE_ALIGNMENT_default)"

definition LINK_TARGET :: choices where
  "LINK_TARGET =
     [ (''_blank'', ugettext_lazy ''Open in new window.''),
       (''_self'', ugettext_lazy ''Open in same window.''),
       (''_parent'', ugettext_lazy ''Delegate to parent.''),
       (''_top'', ugettext_lazy ''Delegate to top.'') ]"

subsection \<open>The model\<close>

text \<open>
  \<^verbatim>\<open>filer.models.ThumbnailOption\<close> belongs to the image-asset library; \<^verbatim>\<open>get_size\<close> reads its
  attributes \<^verbatim>\<open>width\<close>, \<^verbatim>\<open>height\<close>, \<^verbatim>\<open>crop\<close> and \<^verbatim>\<open>upscale\<close>, here prefixed with \<open>thumb_\<close>
  because the picture has fields of the same names.
\<close>

record ThumbnailOption =
  thumb_width :: int
  thumb_height :: int
  thumb_crop :: bool
  thumb_upscale :: bool

text \<open>
  The fields of \<^verbatim>\<open>Picture\<close>, in the order of the class body. A nullable field
  (\<^verbatim>\<open>null=True\<close>) is an option, \<open>None\<close> being Python's \<^verbatim>\<open>None\<close>; a character or URL field
  without \<^verbatim>\<open>null=True\<close> is a string whose blank value is the empty string; a
  \<^verbatim>\<open>BooleanField\<close> is a bool. The filer image and the CMS page are objects of the host
  (\<open>'img\<close>, \<open>'page\<close>); an attributes field is a dictionary of strings, kept as an
  association list.
\<close>

record ('img, 'page) Picture =
  picture :: "'img option"
  external_picture :: string
  width :: "int option"
  height :: "int option"
  alignment :: string
  caption_text :: string
  attributes :: "(string \<times> string) list"
  link_url :: string
  link_page :: "'page option"
  link_target :: string
  link_attributes :: "(string \<times> string) list"
  use_automatic_scaling :: bool
  use_no_cropping :: bool
  use_crop :: bool
  use_upscale :: bool
  use_thumbnail :: "ThumbnailOption option"

text \<open>
  A picture as the field declarations initialise it: every \<^verbatim>\<open>default\<close> of the class body,
  \<^verbatim>\<open>None\<close> for the nullable fields and the blank value for the others.
\<close>

definition new_Picture :: "('img, 'page) Picture" where
  "new_Picture =
     \<lparr> picture = None,
       external_picture = [],
       width = None,
       height = None,
       alignment = [],
       caption_text = [],
       attributes = [],
       link_url = [],
       link_page = None,
       link_target = [],
       link_attributes = [],
       use_automatic_scaling = True,
       use_no_cropping = False,
       use_crop = False,
       use_upscale = False,
       use_thumbnail = None \<rparr>"

subsection \<open>Truth values of Python objects\<close>

text \<open>
  An \<^verbatim>\<open>if x:\<close> of the source tests the truth value of \<^verbatim>\<open>x\<close>: a string is true when it is
  not empty, an integer when it is not zero, \<^verbatim>\<open>None\<close> is false, and a model instance (which
  defines neither \<^verbatim>\<open>__bool__\<close> nor \<^verbatim>\<open>__len__\<close>) is true.
\<close>

fun truth_str :: "string \<Rightarrow> bool" where
  "truth_str [] = False"
| "truth_str (c # cs) = True"

fun truth_int :: "int option \<Rightarrow> bool" where
  "truth_int None = False"
| "truth_int (Some n) = (n \<noteq> 0)"

fun truth_obj :: "'a option \<Rightarrow> bool" where
  "truth_obj None = False"
| "truth_obj (Some x) = True"

subsection \<open>\<^verbatim>\<open>Picture.get_size\<close>\<close>

text \<open>
  The dictionary \<^verbatim>\<open>{'size': (width, height), 'crop': crop, 'upscale': upscale}\<close> that
  \<^verbatim>\<open>get_size\<close> returns; its three keys are the fields (\<open>size\<close> is a constant of HOL, so the
  keys carry the prefix \<open>opt_\<close>).
\<close>

record options =
  opt_size :: "int \<times> int"
  opt_crop :: bool
  opt_upscale :: bool

text \<open>
  The method assigns its four locals in sequence; each \<open>let\<close> below is one assignment
  block of the source, the numbered name being the local after that block.
\<close>

definition get_size :: "('img, 'page) Picture \<Rightarrow> options" where
  "get_size self =
     (let width0 = 0;
          height0 = 0;
          crop0 = False;
          upscale0 = False;
          width1 = (if truth_int (width self)
                    then (case width self of Some w \<Rightarrow> w | None \<Rightarrow> width0)
                    else width0);
          height1 = (if truth_int (height self)
                     then (case height self of Some h \<Rightarrow> h | None \<Rightarrow> height0)
                     else height0);
          crop1 = (if use_crop self then use_crop self else crop0);
          upscale1 = (if use_upscale self then use_upscale self else upscale0)
      in (case use_thumbnail self of
            Some t \<Rightarrow>
              \<lparr> opt_size = (thumb_width t, thumb_height t),
                opt_crop = thumb_crop t,
                opt_upscale = thumb_upscale t \<rparr>
          | None \<Rightarrow>
              \<lparr> opt_size = (width1, height1),
                opt_crop = crop1,
                opt_upscale = upscale1 \<rparr>))"

subsection \<open>\<^verbatim>\<open>Picture.get_link\<close>\<close>

text \<open>
  \<^verbatim>\<open>get_link\<close> returns a string or the Python value \<^verbatim>\<open>False\<close>. The page's
  \<^verbatim>\<open>get_absolute_url()\<close> is the host's; it is the parameter \<open>get_absolute_url\<close>.
\<close>

datatype link_value =
    Str string
  | PyFalse

definition get_link :: "('page \<Rightarrow> string) \<Rightarrow> ('img, 'page) Picture \<Rightarrow> link_value" where
  "get_link get_absolute_url self =
     (if truth_str (link_url self) then Str (link_url self)
      else (case link_page self of
              Some p \<Rightarrow> Str (get_absolute_url p)
            | None \<Rightarrow> PyFalse))"

subsection \<open>\<^verbatim>\<open>Picture.clean\<close>\<close>

text \<open>
  Every failure of \<^verbatim>\<open>clean\<close> is a \<^verbatim>\<open>ValidationError\<close> carrying a message; the three
  \<^verbatim>\<open>raise\<close> statements differ by their message. The names the specification gives to the
  three failures are the three values below, in the order of the \<^verbatim>\<open>raise\<close> statements.
\<close>

datatype error = ValidationError text_value

definition ConflictingLinkError :: error where
  "ConflictingLinkError =
     ValidationError (ugettext
       ''You have defined an external and internal link. Only one option is allowed.'')"

definition MissingImageSourceError :: error where
  "MissingImageSourceError =
     ValidationError (literal ''You need to add either a picture or an external link.'')"

definition ConflictingCroppingOptionsError :: error where
  "ConflictingCroppingOptionsError =
     ValidationError (ugettext
       ''The cropping selection is not valid. You cannot combine certain options.'')"

text \<open>
  \<^verbatim>\<open>clean\<close> returns nothing (\<open>Inr ()\<close>) or raises (\<open>Inl\<close>). The three tests are in the order
  of the source, and the third is the source's disjunction of nine conjunctions.
\<close>

definition clean :: "('img, 'page) Picture \<Rightarrow> error + unit" where
  "clean self =
     (if truth_str (link_url self) \<and> truth_obj (link_page self) then
        Inl ConflictingLinkError
      else if \<not> truth_obj (picture self) \<and> \<not> truth_str (external_picture self) then
        Inl MissingImageSourceError
      else if (use_automatic_scaling self \<and> use_no_cropping self \<or>
               use_automatic_scaling self \<and> use_crop self \<or>
               use_automatic_scaling self \<and> use_upscale self \<or>
               use_automatic_scaling self \<and> truth_obj (use_thumbnail self) \<or>
               use_no_cropping self \<and> use_crop self \<or>
               use_no_cropping self \<and> use_upscale self \<or>
               use_no_cropping self \<and> truth_obj (use_thumbnail self) \<or>
               truth_obj (use_thumbnail self) \<and> use_crop self \<or>
               truth_obj (use_thumbnail self) \<and> use_upscale self) then
        Inl ConflictingCroppingOptionsError
      else Inr ())"

subsection \<open>The forbidden pairs of cropping options\<close>

text \<open>
  The nine forbidden pairs as the specification lists them, grouped by their first member:
  automatic scaling excludes no-cropping, crop, upscale and a thumbnail preset; no-cropping
  excludes crop, upscale and a thumbnail preset; a thumbnail preset excludes crop and
  upscale. This definition follows the specification; the test of \<open>clean\<close> above follows
  the source.
\<close>

definition forbidden_cropping_pair :: "('img, 'page) Picture \<Rightarrow> bool" where
  "forbidden_cropping_pair self =
     (use_automatic_scaling self \<and>
        (use_no_cropping self \<or> use_crop self \<or> use_upscale self \<or>
         use_thumbnail self \<noteq> None) \<or>
      use_no_cropping self \<and>
        (use_crop self \<or> use_upscale self \<or> use_thumbnail self \<noteq> None) \<or>
      use_thumbnail self \<noteq> None \<and> (use_crop self \<or> use_upscale self))"

subsection \<open>Example pictures\<close>

text \<open>
  Pictures used to evaluate the methods. The image and the page are numbered (their primary
  keys); every page of the examples resolves to \<^verbatim>\<open>/about/\<close>.
\<close>

definition about_url :: "nat \<Rightarrow> string" where
  "about_url p = ''/about/''"

definition preset_300_200 :: ThumbnailOption where
  "preset_300_200 =
     \<lparr> thumb_width = 300, thumb_height = 200, thumb_crop = False, thumb_upscale = True \<rparr>"

text \<open>A new picture with an embedded image and automatic scaling switched off.\<close>

definition plain_picture :: "(nat, nat) Picture" where
  "plain_picture = new_Picture \<lparr> picture := Some 1, use_automatic_scaling := False \<rparr>"

text \<open>Both link fields set and no image source.\<close>

definition two_links_no_image :: "(nat, nat) Picture" where
  "two_links_no_image =
     new_Picture \<lparr> link_url := ''http://example.com/'', link_page := Some 7 \<rparr>"

text \<open>Both link fields set, with an embedded image.\<close>

definition two_links_with_image :: "(nat, nat) Picture" where
  "two_links_with_image = two_links_no_image \<lparr> picture := Some 1 \<rparr>"

text \<open>No image source and no link.\<close>

definition no_image :: "(nat, nat) Picture" where
  "no_image = new_Picture \<lparr> use_automatic_scaling := False \<rparr>"

text \<open>Automatic scaling (the default) together with crop, and no image source.\<close>

definition auto_crop_no_image :: "(nat, nat) Picture" where
  "auto_crop_no_image = new_Picture \<lparr> use_crop := True \<rparr>"

text \<open>Automatic scaling together with crop, with an embedded image.\<close>

definition auto_crop_with_image :: "(nat, nat) Picture" where
  "auto_crop_with_image = auto_crop_no_image \<lparr> picture := Some 1 \<rparr>"

text \<open>Crop and upscale together, every other cropping option unset.\<close>

definition crop_and_upscale :: "(nat, nat) Picture" where
  "crop_and_upscale = plain_picture \<lparr> use_crop := True, use_upscale := True \<rparr>"

text \<open>Explicit width and height, crop, and a preset.\<close>

definition sized_with_preset :: "(nat, nat) Picture" where
  "sized_with_preset =
     plain_picture \<lparr> width := Some 100, height := Some 50, use_crop := True,
                     use_thumbnail := Some preset_300_200 \<rparr>"

text \<open>Explicit width, upscale, and no preset.\<close>

definition sized_without_preset :: "(nat, nat) Picture" where
  "sized_without_preset =
     plain_picture \<lparr> width := Some 720, use_upscale := True \<rparr>"

text \<open>Only the external link, only the internal link, and both.\<close>

definition url_linked :: "(nat, nat) Picture" where
  "url_linked = plain_picture \<lparr> link_url := ''http://example.com/'' \<rparr>"

definition page_linked :: "(nat, nat) Picture" where
  "page_linked = plain_picture \<lparr> link_page := Some 7 \<rparr>"

text \<open>The same sizing fields, with the two intent flags set differently.\<close>

definition sized_automatic :: "(nat, nat) Picture" where
  "sized_automatic =
     sized_without_preset \<lparr> use_automatic_scaling := True, use_no_cropping := True \<rparr>"

text \<open>The same sizing fields, with an external instead of an embedded image.\<close>

definition sized_external :: "(nat, nat) Picture" where
  "sized_external =
     sized_without_preset \<lparr> picture := None,
                            external_picture := ''http://example.com/a.png'' \<rparr>"

section \<open>Properties\<close>

subsection \<open>Truth values\<close>

lemma truth_str_iff: "truth_str s = (s \<noteq> [])"
  by (cases s) simp_all

lemma truth_obj_iff: "truth_obj x = (x \<noteq> None)"
  by (cases x) simp_all

lemma truth_int_iff: "truth_int x = (\<exists>n. x = Some n \<and> n \<noteq> 0)"
  by (cases x) simp_all

lemma errors_distinct:
  "ConflictingLinkError \<noteq> MissingImageSourceError"
  "ConflictingLinkError \<noteq> ConflictingCroppingOptionsError"
  "MissingImageSourceError \<noteq> ConflictingCroppingOptionsError"
  by (simp_all add: ConflictingLinkError_def MissingImageSourceError_def
        ConflictingCroppingOptionsError_def)

text \<open>The test of \<open>clean\<close>, written as in the source, is the grouped list of pairs.\<close>

lemma nine_pairs_iff:
  "(use_automatic_scaling self \<and> use_no_cropping self \<or>
    use_automatic_scaling self \<and> use_crop self \<or>
    use_automatic_scaling self \<and> use_upscale self \<or>
    use_automatic_scaling self \<and> truth_obj (use_thumbnail self) \<or>
    use_no_cropping self \<and> use_crop self \<or>
    use_no_cropping self \<and> use_upscale self \<or>
    use_no_cropping self \<and> truth_obj (use_thumbnail self) \<or>
    truth_obj (use_thumbnail self) \<and> use_crop self \<or>
    truth_obj (use_thumbnail self) \<and> use_upscale self)
   = forbidden_cropping_pair self"
  unfolding forbidden_cropping_pair_def truth_obj_iff by blast

lemma clean_unfold:
  "clean self =
     (if link_url self \<noteq> [] \<and> link_page self \<noteq> None then Inl ConflictingLinkError
      else if picture self = None \<and> external_picture self = [] then
        Inl MissingImageSourceError
      else if forbidden_cropping_pair self then Inl ConflictingCroppingOptionsError
      else Inr ())"
  unfolding clean_def nine_pairs_iff by (simp add: truth_str_iff truth_obj_iff)

subsection \<open>Validation\<close>

text \<open>
  C1 (as amended). For every picture, \<open>clean\<close> fails with the cropping error if and only if
  one of the nine forbidden pairs holds and the two earlier tests pass, that is, the two link
  fields are not both set and an embedded or an external image is present. In particular a
  picture with crop and upscale set and every other cropping option unset never fails with
  the cropping error.
\<close>

theorem clean_cropping_error_iff:
  "(clean self = Inl ConflictingCroppingOptionsError) =
     (forbidden_cropping_pair self \<and>
      \<not> (link_url self \<noteq> [] \<and> link_page self \<noteq> None) \<and>
      \<not> (picture self = None \<and> external_picture self = []))
   \<and> (use_crop self \<and> use_upscale self \<and> \<not> use_automatic_scaling self \<and>
        \<not> use_no_cropping self \<and> use_thumbnail self = None
        \<longrightarrow> clean self \<noteq> Inl ConflictingCroppingOptionsError)"
proof -
  have first: "(clean self = Inl ConflictingCroppingOptionsError) =
     (forbidden_cropping_pair self \<and>
      \<not> (link_url self \<noteq> [] \<and> link_page self \<noteq> None) \<and>
      \<not> (picture self = None \<and> external_picture self = []))"
    using errors_distinct by (simp add: clean_unfold)
  have second: "clean self \<noteq> Inl ConflictingCroppingOptionsError"
    if "use_crop self \<and> use_upscale self \<and> \<not> use_automatic_scaling self \<and>
        \<not> use_no_cropping self \<and> use_thumbnail self = None"
  proof -
    from that have "\<not> forbidden_cropping_pair self"
      by (simp add: forbidden_cropping_pair_def)
    with first show ?thesis by simp
  qed
  from first second show ?thesis by blast
qed

text \<open>
  Witness of C1: with an embedded image and no link, automatic scaling together with crop
  fails with the cropping error, and crop together with upscale does not.
\<close>

theorem clean_cropping_error_iff_witness:
  "clean auto_crop_with_image = Inl ConflictingCroppingOptionsError \<and>
   use_crop crop_and_upscale \<and> use_upscale crop_and_upscale \<and>
   \<not> use_automatic_scaling crop_and_upscale \<and> \<not> use_no_cropping crop_and_upscale \<and>
   use_thumbnail crop_and_upscale = None \<and>
   clean crop_and_upscale \<noteq> Inl ConflictingCroppingOptionsError"
proof -
  have a: "forbidden_cropping_pair auto_crop_with_image \<and>
      \<not> (link_url auto_crop_with_image \<noteq> [] \<and> link_page auto_crop_with_image \<noteq> None) \<and>
      \<not> (picture auto_crop_with_image = None \<and> external_picture auto_crop_with_image = [])"
    by (simp add: forbidden_cropping_pair_def auto_crop_with_image_def
          auto_crop_no_image_def new_Picture_def)
  have b: "use_crop crop_and_upscale \<and> use_upscale crop_and_upscale \<and>
      \<not> use_automatic_scaling crop_and_upscale \<and> \<not> use_no_cropping crop_and_upscale \<and>
      use_thumbnail crop_and_upscale = None"
    by (simp add: crop_and_upscale_def plain_picture_def new_Picture_def)
  from a clean_cropping_error_iff [of auto_crop_with_image]
  have "clean auto_crop_with_image = Inl ConflictingCroppingOptionsError" by blast
  moreover from b clean_cropping_error_iff [of crop_and_upscale]
  have "clean crop_and_upscale \<noteq> Inl ConflictingCroppingOptionsError" by blast
  ultimately show ?thesis using b by blast
qed

text \<open>
  Counterexample to C1 as stated: a picture with automatic scaling and crop both set (a
  forbidden pair) and no image source fails with the missing-image error, not with the
  cropping error.
\<close>

theorem clean_cropping_error_counterexample:
  "forbidden_cropping_pair auto_crop_no_image \<and>
   clean auto_crop_no_image = Inl MissingImageSourceError \<and>
   clean auto_crop_no_image \<noteq> Inl ConflictingCroppingOptionsError"
proof -
  have "forbidden_cropping_pair auto_crop_no_image"
    by (simp add: forbidden_cropping_pair_def auto_crop_no_image_def new_Picture_def)
  moreover have "clean auto_crop_no_image = Inl MissingImageSourceError"
    by (simp add: clean_def auto_crop_no_image_def new_Picture_def)
  ultimately show ?thesis using errors_distinct by simp
qed

text \<open>
  C4. For every picture with both the external link and the internal link set, \<open>clean\<close>
  fails with the conflicting-link error.
\<close>

theorem clean_conflicting_link:
  assumes "link_url self \<noteq> []" and "link_page self \<noteq> None"
  shows "clean self = Inl ConflictingLinkError"
  using assms by (simp add: clean_unfold)

theorem clean_conflicting_link_witness:
  "link_url two_links_with_image \<noteq> [] \<and> link_page two_links_with_image \<noteq> None \<and>
   clean two_links_with_image = Inl ConflictingLinkError"
proof -
  have u: "link_url two_links_with_image \<noteq> []"
    by (simp add: two_links_with_image_def two_links_no_image_def new_Picture_def)
  have p: "link_page two_links_with_image \<noteq> None"
    by (simp add: two_links_with_image_def two_links_no_image_def new_Picture_def)
  from clean_conflicting_link [OF u p] u p show ?thesis by simp
qed

text \<open>
  C5 (as amended). For every picture with neither an embedded image nor an external image
  URL, and whose two link fields are not both set, \<open>clean\<close> fails with the missing-image
  error.
\<close>

theorem clean_missing_image:
  assumes "picture self = None" and "external_picture self = []"
    and "\<not> (link_url self \<noteq> [] \<and> link_page self \<noteq> None)"
  shows "clean self = Inl MissingImageSourceError"
proof -
  from assms(3) have "\<not> (link_url self \<noteq> [] \<and> link_page self \<noteq> None)" .
  then have "clean self =
      (if picture self = None \<and> external_picture self = [] then Inl MissingImageSourceError
       else if forbidden_cropping_pair self then Inl ConflictingCroppingOptionsError
       else Inr ())"
    by (subst clean_unfold) (simp only: if_False)
  with assms(1,2) show ?thesis by simp
qed

theorem clean_missing_image_witness:
  "picture no_image = None \<and> external_picture no_image = [] \<and>
   \<not> (link_url no_image \<noteq> [] \<and> link_page no_image \<noteq> None) \<and>
   clean no_image = Inl MissingImageSourceError"
proof -
  have i: "picture no_image = None" by (simp add: no_image_def new_Picture_def)
  have e: "external_picture no_image = []" by (simp add: no_image_def new_Picture_def)
  have l: "\<not> (link_url no_image \<noteq> [] \<and> link_page no_image \<noteq> None)"
    by (simp add: no_image_def new_Picture_def)
  from clean_missing_image [OF i e l] i e l show ?thesis by simp
qed

text \<open>
  Counterexample to C5 as stated: a picture with neither image source and both link fields
  set fails with the conflicting-link error, not with the missing-image error.
\<close>

theorem clean_missing_image_counterexample:
  "picture two_links_no_image = None \<and> external_picture two_links_no_image = [] \<and>
   clean two_links_no_image = Inl ConflictingLinkError \<and>
   clean two_links_no_image \<noteq> Inl MissingImageSourceError"
proof -
  have "clean two_links_no_image = Inl ConflictingLinkError"
    by (simp add: clean_def two_links_no_image_def new_Picture_def)
  then show ?thesis
    using errors_distinct by (simp add: two_links_no_image_def new_Picture_def)
qed

text \<open>
  C6. The link test comes before the image test: for every picture that has both link
  fields set and has no image source, \<open>clean\<close> fails with the conflicting-link error, which
  is not the missing-image error.
\<close>

theorem clean_link_before_image:
  assumes "link_url self \<noteq> []" and "link_page self \<noteq> None"
    and "picture self = None" and "external_picture self = []"
  shows "clean self = Inl ConflictingLinkError \<and> clean self \<noteq> Inl MissingImageSourceError"
  using assms errors_distinct by (simp add: clean_unfold)

theorem clean_link_before_image_witness:
  "link_url two_links_no_image \<noteq> [] \<and> link_page two_links_no_image \<noteq> None \<and>
   picture two_links_no_image = None \<and> external_picture two_links_no_image = [] \<and>
   clean two_links_no_image = Inl ConflictingLinkError \<and>
   clean two_links_no_image \<noteq> Inl MissingImageSourceError"
proof -
  have u: "link_url two_links_no_image \<noteq> []"
    by (simp add: two_links_no_image_def new_Picture_def)
  have p: "link_page two_links_no_image \<noteq> None"
    by (simp add: two_links_no_image_def new_Picture_def)
  have i: "picture two_links_no_image = None"
    by (simp add: two_links_no_image_def new_Picture_def)
  have e: "external_picture two_links_no_image = []"
    by (simp add: two_links_no_image_def new_Picture_def)
  from clean_link_before_image [OF u p i e] u p i e show ?thesis by blast
qed

subsection \<open>The size directive\<close>

lemma get_size_Some:
  "use_thumbnail self = Some t \<Longrightarrow>
     get_size self =
       \<lparr> opt_size = (thumb_width t, thumb_height t),
         opt_crop = thumb_crop t,
         opt_upscale = thumb_upscale t \<rparr>"
  by (simp add: get_size_def)

lemma get_size_None:
  "use_thumbnail self = None \<Longrightarrow>
     get_size self =
       \<lparr> opt_size = (case width self of Some w \<Rightarrow> w | None \<Rightarrow> 0,
                     case height self of Some h \<Rightarrow> h | None \<Rightarrow> 0),
         opt_crop = use_crop self,
         opt_upscale = use_upscale self \<rparr>"
  by (cases "width self"; cases "height self") (simp_all add: get_size_def)

text \<open>
  \<open>get_size\<close> reads five fields of the picture and nothing else.
\<close>

lemma get_size_cong:
  assumes "width a = width b" and "height a = height b"
    and "use_crop a = use_crop b" and "use_upscale a = use_upscale b"
    and "use_thumbnail a = use_thumbnail b"
  shows "get_size a = get_size b"
  unfolding get_size_def assms by (rule refl)

text \<open>
  C2. For every picture whose thumbnail preset is set, \<open>get_size\<close> returns the preset's
  width, height, crop and upscale, whatever the picture's own width, height, crop and
  upscale are.
\<close>

theorem get_size_preset:
  assumes "use_thumbnail self = Some t"
  shows "get_size self =
           \<lparr> opt_size = (thumb_width t, thumb_height t),
             opt_crop = thumb_crop t,
             opt_upscale = thumb_upscale t \<rparr>
         \<and> get_size (self \<lparr> width := w, height := h, use_crop := c, use_upscale := u \<rparr>)
             = get_size self"
proof -
  have "use_thumbnail (self \<lparr> width := w, height := h, use_crop := c, use_upscale := u \<rparr>)
          = Some t"
    using assms by simp
  then show ?thesis using assms by (simp add: get_size_Some)
qed

text \<open>
  Witness of C2, the example of the specification: width 100, height 50 and crop, with the
  preset of width 300, height 200, no crop and upscale, give the size (300, 200), no crop and
  upscale.
\<close>

theorem get_size_preset_witness:
  "use_thumbnail sized_with_preset = Some preset_300_200 \<and>
   width sized_with_preset = Some 100 \<and> height sized_with_preset = Some 50 \<and>
   use_crop sized_with_preset \<and>
   get_size sized_with_preset =
     \<lparr> opt_size = (300, 200), opt_crop = False, opt_upscale = True \<rparr>"
proof -
  have t: "use_thumbnail sized_with_preset = Some preset_300_200"
    by (simp add: sized_with_preset_def)
  have f: "width sized_with_preset = Some 100 \<and> height sized_with_preset = Some 50 \<and>
      use_crop sized_with_preset"
    by (simp add: sized_with_preset_def)
  from get_size_preset [OF t]
  have "get_size sized_with_preset =
      \<lparr> opt_size = (thumb_width preset_300_200, thumb_height preset_300_200),
        opt_crop = thumb_crop preset_300_200,
        opt_upscale = thumb_upscale preset_300_200 \<rparr>"
    by blast
  then have "get_size sized_with_preset =
      \<lparr> opt_size = (300, 200), opt_crop = False, opt_upscale = True \<rparr>"
    by (simp add: preset_300_200_def)
  with t f show ?thesis by blast
qed

text \<open>
  C3. For every picture with no thumbnail preset, \<open>get_size\<close> returns the size (w, h), the
  picture's crop flag and its upscale flag, where w is the picture's width if it is set and 0
  otherwise, and h is its height if it is set and 0 otherwise.
\<close>

theorem get_size_fields:
  assumes "use_thumbnail self = None"
  shows "get_size self =
           \<lparr> opt_size = (case width self of Some w \<Rightarrow> w | None \<Rightarrow> 0,
                         case height self of Some h \<Rightarrow> h | None \<Rightarrow> 0),
             opt_crop = use_crop self,
             opt_upscale = use_upscale self \<rparr>"
  using assms by (rule get_size_None)

text \<open>
  Witness of C3: a new picture, with no override at all, gives the size (0, 0), no crop and
  no upscale; width 720 and upscale give the size (720, 0), no crop and upscale.
\<close>

theorem get_size_fields_witness:
  "use_thumbnail plain_picture = None \<and>
   get_size plain_picture = \<lparr> opt_size = (0, 0), opt_crop = False, opt_upscale = False \<rparr> \<and>
   use_thumbnail sized_without_preset = None \<and>
   get_size sized_without_preset =
     \<lparr> opt_size = (720, 0), opt_crop = False, opt_upscale = True \<rparr>"
proof -
  have n: "use_thumbnail plain_picture = None"
    by (simp add: plain_picture_def new_Picture_def)
  have m: "use_thumbnail sized_without_preset = None"
    by (simp add: sized_without_preset_def plain_picture_def new_Picture_def)
  from get_size_fields [OF n]
  have a: "get_size plain_picture =
      \<lparr> opt_size = (0, 0), opt_crop = False, opt_upscale = False \<rparr>"
    by (simp add: plain_picture_def new_Picture_def)
  from get_size_fields [OF m]
  have b: "get_size sized_without_preset =
      \<lparr> opt_size = (720, 0), opt_crop = False, opt_upscale = True \<rparr>"
    by (simp add: sized_without_preset_def plain_picture_def new_Picture_def)
  from n m a b show ?thesis by blast
qed

text \<open>
  C8. Automatic scaling and no-cropping have no influence on \<open>get_size\<close>: two pictures that
  agree on every field except these two have the same directive.
\<close>

theorem get_size_ignores_intent_flags:
  assumes "picture a = picture b" and "external_picture a = external_picture b"
    and "width a = width b" and "height a = height b"
    and "alignment a = alignment b" and "caption_text a = caption_text b"
    and "attributes a = attributes b"
    and "link_url a = link_url b" and "link_page a = link_page b"
    and "link_target a = link_target b" and "link_attributes a = link_attributes b"
    and "use_crop a = use_crop b" and "use_upscale a = use_upscale b"
    and "use_thumbnail a = use_thumbnail b"
  shows "get_size a = get_size b"
  using assms by (intro get_size_cong)

theorem get_size_ignores_intent_flags_witness:
  "use_automatic_scaling sized_without_preset \<noteq> use_automatic_scaling sized_automatic \<and>
   use_no_cropping sized_without_preset \<noteq> use_no_cropping sized_automatic \<and>
   get_size sized_without_preset = get_size sized_automatic"
proof -
  have d: "use_automatic_scaling sized_without_preset \<noteq> use_automatic_scaling sized_automatic \<and>
      use_no_cropping sized_without_preset \<noteq> use_no_cropping sized_automatic"
    by (simp add: sized_automatic_def sized_without_preset_def plain_picture_def
          new_Picture_def)
  have "get_size sized_without_preset = get_size sized_automatic"
    by (rule get_size_ignores_intent_flags) (simp_all add: sized_automatic_def)
  with d show ?thesis by blast
qed

text \<open>
  C9. The image source has no influence on \<open>get_size\<close>: two pictures that agree on every
  field except the embedded picture and the external picture have the same directive.
\<close>

theorem get_size_ignores_image_source:
  assumes "width a = width b" and "height a = height b"
    and "alignment a = alignment b" and "caption_text a = caption_text b"
    and "attributes a = attributes b"
    and "link_url a = link_url b" and "link_page a = link_page b"
    and "link_target a = link_target b" and "link_attributes a = link_attributes b"
    and "use_automatic_scaling a = use_automatic_scaling b"
    and "use_no_cropping a = use_no_cropping b"
    and "use_crop a = use_crop b" and "use_upscale a = use_upscale b"
    and "use_thumbnail a = use_thumbnail b"
  shows "get_size a = get_size b"
  using assms by (intro get_size_cong)

theorem get_size_ignores_image_source_witness:
  "picture sized_without_preset \<noteq> picture sized_external \<and>
   external_picture sized_without_preset \<noteq> external_picture sized_external \<and>
   get_size sized_without_preset = get_size sized_external"
proof -
  have d: "picture sized_without_preset \<noteq> picture sized_external \<and>
      external_picture sized_without_preset \<noteq> external_picture sized_external"
    by (simp add: sized_external_def sized_without_preset_def plain_picture_def
          new_Picture_def)
  have "get_size sized_without_preset = get_size sized_external"
    by (rule get_size_ignores_image_source) (simp_all add: sized_external_def)
  with d show ?thesis by blast
qed

subsection \<open>The link\<close>

text \<open>
  C7. For every picture, \<open>get_link\<close> returns the external link when it is present;
  otherwise the absolute URL of the internal page when that is present; otherwise the
  value \<^verbatim>\<open>False\<close>, which is not a string and so not the empty string.
\<close>

theorem get_link_cases:
  "(link_url self \<noteq> [] \<longrightarrow> get_link get_absolute_url self = Str (link_url self)) \<and>
   (link_url self = [] \<longrightarrow>
      (\<forall>p. link_page self = Some p \<longrightarrow>
         get_link get_absolute_url self = Str (get_absolute_url p))) \<and>
   (link_url self = [] \<and> link_page self = None \<longrightarrow>
      get_link get_absolute_url self = PyFalse \<and>
      get_link get_absolute_url self \<noteq> Str [])"
  by (simp add: get_link_def truth_str_iff)

text \<open>
  Witness of C7: the external link alone is returned as it is, both links give the external
  one, the page alone gives \<^verbatim>\<open>/about/\<close>, and no link gives \<^verbatim>\<open>False\<close>.
\<close>

theorem get_link_cases_witness:
  "get_link about_url url_linked = Str ''http://example.com/'' \<and>
   get_link about_url two_links_with_image = Str ''http://example.com/'' \<and>
   get_link about_url page_linked = Str ''/about/'' \<and>
   get_link about_url plain_picture = PyFalse"
proof -
  have u: "link_url url_linked = ''http://example.com/''"
    by (simp add: url_linked_def)
  have t: "link_url two_links_with_image = ''http://example.com/''"
    by (simp add: two_links_with_image_def two_links_no_image_def)
  have p: "link_url page_linked = [] \<and> link_page page_linked = Some 7"
    by (simp add: page_linked_def plain_picture_def new_Picture_def)
  have n: "link_url plain_picture = [] \<and> link_page plain_picture = None"
    by (simp add: plain_picture_def new_Picture_def)
  from u get_link_cases [of url_linked about_url]
  have a: "get_link about_url url_linked = Str ''http://example.com/''" by simp
  from t get_link_cases [of two_links_with_image about_url]
  have b: "get_link about_url two_links_with_image = Str ''http://example.com/''" by simp
  from p get_link_cases [of page_linked about_url]
  have c: "get_link about_url page_linked = Str ''/about/''"
    by (simp add: about_url_def)
  from n get_link_cases [of plain_picture about_url]
  have d: "get_link about_url plain_picture = PyFalse" by simp
  from a b c d show ?thesis by blast
qed

subsection \<open>The alignment choices\<close>

text \<open>
  C10. When the host has no setting \<^verbatim>\<open>DJANGOCMS_PICTURE_ALIGN\<close>, the alignment choices hold
  the value \<^verbatim>\<open>left\<close> twice, once labelled "Align left" and once labelled "Align center",
  and hold no value \<^verbatim>\<open>center\<close>.
\<close>

theorem default_alignment_left_twice:
  assumes "settings ''DJANGOCMS_PICTURE_ALIGN'' = None"
  shows "filter (\<lambda>c. fst c = ''left'') (PICTURE_ALIGNMENT settings) =
           [ (''left'', ugettext_lazy ''Align left''),
             (''left'', ugettext_lazy ''Align center'') ]
         \<and> ''center'' \<notin> set (map fst (PICTURE_ALIGNMENT settings))"
  using assms by (simp add: PICTURE_ALIGNMENT_def PICTURE_ALIGNMENT_default_def)

theorem default_alignment_left_twice_witness:
  "Map.empty ''DJANGOCMS_PICTURE_ALIGN'' = (None :: choices option) \<and>
   filter (\<lambda>c. fst c = ''left'') (PICTURE_ALIGNMENT Map.empty) =
     [ (''left'', ugettext_lazy ''Align left''),
       (''left'', ugettext_lazy ''Align center'') ]
   \<and> ''center'' \<notin> set (map fst (PICTURE_ALIGNMENT Map.empty))"
proof -
  have e: "Map.empty ''DJANGOCMS_PICTURE_ALIGN'' = (None :: choices option)" by simp
  from default_alignment_left_twice [OF e] e show ?thesis by blast
qed

end
